theory Spec2Isabelle
  imports Main "HOL-Library.Word" "HOL-Library.Multiset"
begin

section \<open>Experiment utilities (src/utils.py): the embedding\<close>

text \<open>
  The module is glue code over the Python standard library (\<^verbatim>\<open>os\<close>, \<^verbatim>\<open>csv\<close>,
  \<^verbatim>\<open>logging\<close>, \<^verbatim>\<open>random\<close>), NumPy and PyTorch. Its functions are embedded as
  state transformers over an explicit program state: the file system, the open file
  handles, the process-global state (root logger, random seeds, environment) and the
  store of the model and optimizer objects the caller holds. An exception is a value:
  every function returns \<open>(error + result, state)\<close>, the state being the one reached
  when the exception was raised.

  The library calls are modelled next to the functions that use them, each as small as
  the use the module makes of it allows. What is abstracted is said where it is
  abstracted. \<^verbatim>\<open>display_image\<close> and \<^verbatim>\<open>display_dataset_sample\<close>, which compute with
  tensors and plot, are not embedded.
\<close>

subsection \<open>Exceptions\<close>

text \<open>
  \<open>OSError\<close> stands for every error of the file system (FileNotFoundError,
  NotADirectoryError, IsADirectoryError, FileExistsError are its subclasses);
  \<open>UnpicklingError\<close> for whatever \<^verbatim>\<open>torch.load\<close> raises on a file whose content is not
  one serialised object; \<open>LoadStateDictError\<close> for whatever a \<^verbatim>\<open>load_state_dict\<close> method
  raises on a state dict that does not fit its object. The others are the Python
  exceptions of the same name.
\<close>

datatype error =
    OSError
  | UnpicklingError
  | LoadStateDictError
  | KeyError
  | TypeError
  | IndexError
  | ValueError
  | RuntimeError

type_synonym ('a, 's) exc = "'s \<Rightarrow> (error + 'a) \<times> 's"

definition exc_return :: "'a \<Rightarrow> ('a, 's) exc" where
  "exc_return x s = (Inr x, s)"

definition exc_of :: "error + 'a \<Rightarrow> ('a, 's) exc" where
  "exc_of r s = (r, s)"

text \<open>Sequencing of two statements: an exception of the first skips the second.\<close>

definition exc_bind :: "('a, 's) exc \<Rightarrow> ('a \<Rightarrow> ('b, 's) exc) \<Rightarrow> ('b, 's) exc" where
  "exc_bind f g s = (case f s of (Inl e, s') \<Rightarrow> (Inl e, s') | (Inr x, s') \<Rightarrow> g x s')"

subsection \<open>Paths: \<^verbatim>\<open>os.path.join\<close> (posixpath)\<close>

definition sep :: char where
  "sep = CHR ''/''"

text \<open>
  One step of the loop of \<^verbatim>\<open>posixpath.join\<close>: a component that starts with the
  separator replaces the path built so far; otherwise it is appended, after a
  separator unless the path is empty or already ends with one.
\<close>

definition join_step :: "string \<Rightarrow> string \<Rightarrow> string" where
  "join_step path b =
     (if b \<noteq> [] \<and> hd b = sep then b
      else if path = [] \<or> last path = sep then path @ b
      else path @ [sep] @ b)"

definition os_path_join :: "string \<Rightarrow> string list \<Rightarrow> string" where
  "os_path_join a p = foldl join_step a p"

subsection \<open>Decimal strings and \<^verbatim>\<open>time.strftime\<close>\<close>

definition digit_char :: "nat \<Rightarrow> char" where
  "digit_char d = ''0123456789'' ! (d mod 10)"

fun str_nat :: "nat \<Rightarrow> string" where
  "str_nat n = (if n < 10 then [digit_char n] else str_nat (n div 10) @ [digit_char (n mod 10)])"

declare str_nat.simps [simp del]

definition str_int :: "int \<Rightarrow> string" where
  "str_int i = (if i < 0 then CHR ''-'' # str_nat (nat (- i)) else str_nat (nat i))"

definition pad2 :: "nat \<Rightarrow> string" where
  "pad2 n = (if n < 10 then CHR ''0'' # str_nat n else str_nat n)"

text \<open>The broken-down local time that \<^verbatim>\<open>time.strftime\<close> formats: the clock is an input.\<close>

record struct_time =
  tm_year :: nat
  tm_mon :: nat
  tm_mday :: nat
  tm_hour :: nat
  tm_min :: nat

text \<open>\<^verbatim>\<open>time.strftime('%Y-%m-%d-%H-%M')\<close>\<close>

definition strftime :: "struct_time \<Rightarrow> string" where
  "strftime t =
     str_nat (tm_year t) @ ''-'' @ pad2 (tm_mon t) @ ''-'' @ pad2 (tm_mday t) @ ''-'' @
     pad2 (tm_hour t) @ ''-'' @ pad2 (tm_min t)"

subsection \<open>Python values, tensors, models and optimizers\<close>

text \<open>
  A float is carried as its 64 bits: the module never computes with one. A tensor is a
  shape and its stored bytes; devices and dtypes are not represented.
\<close>

type_synonym pyfloat = "64 word"

datatype tensor = Tensor (shape: "nat list") (storage: "8 word list")

text \<open>A parameter group of an optimizer: its hyperparameters and how many parameters it has.\<close>

record param_group =
  hyper :: "string \<rightharpoonup> pyfloat"
  n_params :: nat

text \<open>
  The Python objects that reach \<^verbatim>\<open>torch.save\<close> and come back from \<^verbatim>\<open>torch.load\<close>.
  A dictionary with string keys is a map. The two parts of an optimizer's state dict
  are leaves: \<open>PyOptimState\<close> is the dictionary from parameter index to that parameter's
  buffers, \<open>PyParamGroups\<close> the list of parameter groups.
\<close>

datatype pyval =
    PyInt int
  | PyFloat pyfloat
  | PyTensor tensor
  | PyOptimState "nat \<rightharpoonup> (string \<rightharpoonup> tensor)"
  | PyParamGroups "param_group list"
  | PyDict "string \<rightharpoonup> pyval"

text \<open>\<^verbatim>\<open>obj[key]\<close> with a string key.\<close>

fun py_getitem :: "pyval \<Rightarrow> string \<Rightarrow> error + pyval" where
  "py_getitem (PyDict d) k = (case d k of None \<Rightarrow> Inl KeyError | Some v \<Rightarrow> Inr v)"
| "py_getitem (PyOptimState st) k = Inl KeyError"
| "py_getitem (PyTensor t) k = Inl IndexError"
| "py_getitem (PyInt i) k = Inl TypeError"
| "py_getitem (PyFloat x) k = Inl TypeError"
| "py_getitem (PyParamGroups gs) k = Inl TypeError"

text \<open>\<^verbatim>\<open>nn.Module\<close>: the named parameters and buffers.\<close>

record nn_module =
  params :: "string \<rightharpoonup> tensor"

text \<open>\<^verbatim>\<open>model.state_dict()\<close>\<close>

definition module_state_dict :: "nn_module \<Rightarrow> pyval" where
  "module_state_dict m = PyDict (map_option PyTensor \<circ> params m)"

text \<open>
  Whether the entry of a state dict for one parameter can be copied into it: it is a
  tensor of the parameter's shape.
\<close>

definition loadable :: "tensor \<Rightarrow> pyval option \<Rightarrow> bool" where
  "loadable t v = (case v of Some (PyTensor t') \<Rightarrow> shape t' = shape t | _ \<Rightarrow> False)"

definition copy_param :: "tensor \<Rightarrow> pyval option \<Rightarrow> tensor" where
  "copy_param t v = (case v of Some (PyTensor t') \<Rightarrow> if shape t' = shape t then t' else t | _ \<Rightarrow> t)"

text \<open>
  \<^verbatim>\<open>model.load_state_dict(state_dict)\<close>, strict as by default. Every parameter whose
  entry fits is overwritten; then missing keys, unexpected keys and entries that do
  not fit are reported by one exception. So a failed call may have updated part of the
  model. Something that is not a dictionary is rejected before anything is copied.
\<close>

definition module_load_state_dict :: "nn_module \<Rightarrow> pyval \<Rightarrow> (error + unit) \<times> nn_module" where
  "module_load_state_dict m sd =
     (case sd of
        PyDict d \<Rightarrow>
          (let m' = m\<lparr>params := (\<lambda>k. case params m k of None \<Rightarrow> None
                                        | Some t \<Rightarrow> Some (copy_param t (d k)))\<rparr>
           in if dom d = dom (params m) \<and> (\<forall>k \<in> dom (params m). loadable (the (params m k)) (d k))
              then (Inr (), m') else (Inl LoadStateDictError, m'))
      | _ \<Rightarrow> (Inl LoadStateDictError, m))"

text \<open>\<^verbatim>\<open>torch.optim.Optimizer\<close>: the parameter groups and the per-parameter state.\<close>

record optimizer =
  param_groups :: "param_group list"
  opt_state :: "nat \<rightharpoonup> (string \<rightharpoonup> tensor)"

text \<open>\<^verbatim>\<open>optimizer.state_dict()\<close>\<close>

definition optimizer_state_dict :: "optimizer \<Rightarrow> pyval" where
  "optimizer_state_dict opt =
     PyDict [''state'' \<mapsto> PyOptimState (opt_state opt),
             ''param_groups'' \<mapsto> PyParamGroups (param_groups opt)]"

text \<open>
  \<^verbatim>\<open>optimizer.load_state_dict(state_dict)\<close>: the saved groups must be as many as the
  optimizer's and of the same sizes; everything is checked before the optimizer is
  changed.
\<close>

definition optimizer_load_state_dict :: "optimizer \<Rightarrow> pyval \<Rightarrow> (error + unit) \<times> optimizer" where
  "optimizer_load_state_dict opt sd =
     (case sd of
        PyDict d \<Rightarrow>
          (case (d ''param_groups'', d ''state'') of
             (Some (PyParamGroups gs), Some (PyOptimState st)) \<Rightarrow>
               if map n_params gs = map n_params (param_groups opt)
               then (Inr (), opt\<lparr>param_groups := gs, opt_state := st\<rparr>)
               else (Inl LoadStateDictError, opt)
           | _ \<Rightarrow> (Inl LoadStateDictError, opt))
      | _ \<Rightarrow> (Inl LoadStateDictError, opt))"

subsection \<open>The file system\<close>

text \<open>
  A file holds what was written to it, in order: rows written through \<^verbatim>\<open>csv.writer\<close>
  (a row is the list of the values handed to \<^verbatim>\<open>writerow\<close>; the text the csv module
  renders them to is not modelled) and objects serialised by \<^verbatim>\<open>torch.save\<close> (the
  serialisation is opaque: the file holds the object).
\<close>

datatype cell = CStr string | CInt int | CFloat pyfloat

datatype chunk = Row "cell list" | Blob pyval

datatype node = Dir | File "chunk list"

text \<open>
  A node is addressed by the list of names that lead to it from the root directory.
  The root always exists.
\<close>

type_synonym key = "string list"

definition node_at :: "(key \<rightharpoonup> node) \<Rightarrow> key \<Rightarrow> node option" where
  "node_at ns k = (if k = [] then Some Dir else ns k)"

text \<open>The components of a path: \<^verbatim>\<open>path.split('/')\<close>.\<close>

fun split_sep :: "string \<Rightarrow> string list" where
  "split_sep [] = [[]]"
| "split_sep (c # cs) =
     (if c = sep then [] # split_sep cs
      else (case split_sep cs of [] \<Rightarrow> [[c]] | w # ws \<Rightarrow> (c # w) # ws))"

text \<open>
  Path resolution, one component at a time: the node reached so far must be a
  directory; an empty component and \<^verbatim>\<open>.\<close> stay there, \<^verbatim>\<open>..\<close> goes to the parent (the
  root is its own parent), a name goes to the entry of that name, which need not
  exist. Symbolic links are not modelled.
\<close>

definition step_key :: "key \<Rightarrow> string \<Rightarrow> key" where
  "step_key cur c =
     (if c = [] \<or> c = ''.'' then cur else if c = ''..'' then butlast cur else cur @ [c])"

fun walk :: "(key \<rightharpoonup> node) \<Rightarrow> key \<Rightarrow> string list \<Rightarrow> error + key" where
  "walk ns cur [] = Inr cur"
| "walk ns cur (c # cs) =
     (if node_at ns cur = Some Dir then walk ns (step_key cur c) cs else Inl OSError)"

subsection \<open>The program state\<close>

datatype handler = FileHandler key | StreamHandler

text \<open>
  The state of the process that outlives a call and is not in the file system: the
  handlers and level of the root logger, the seeds of the random number generators,
  the environment variables.
\<close>

record globals =
  root_handlers :: "handler list"
  root_level :: nat
  random_seed :: "int option"
  np_random_seed :: "int option"
  torch_seed :: "int option"
  cuda_seed :: "int option"
  environ :: "string \<rightharpoonup> string"

text \<open>
  \<open>open_handles\<close> holds the files that are open, once per handle. \<open>modules\<close> and
  \<open>optimizers\<close> are the store of the objects the caller holds: a model or an optimizer
  is passed to a function as its address, and a method that mutates it updates the
  store at that address.
\<close>

record state =
  cwd :: key
  nodes :: "key \<rightharpoonup> node"
  open_handles :: "key multiset"
  process :: globals
  cuda_is_available :: bool
  modules :: "nat \<Rightarrow> nn_module"
  optimizers :: "nat \<Rightarrow> optimizer"

text \<open>The node a path names: relative paths start at the working directory.\<close>

definition resolve :: "state \<Rightarrow> string \<Rightarrow> error + key" where
  "resolve s path =
     (if path = [] then Inl OSError
      else walk (nodes s) (if hd path = sep then [] else cwd s) (split_sep path))"

text \<open>\<^verbatim>\<open>os.path.exists\<close>, \<^verbatim>\<open>os.path.isfile\<close>, \<^verbatim>\<open>os.path.isdir\<close>: false when the path does not resolve.\<close>

definition os_path_exists :: "state \<Rightarrow> string \<Rightarrow> bool" where
  "os_path_exists s path =
     (case resolve s path of Inl e \<Rightarrow> False | Inr k \<Rightarrow> node_at (nodes s) k \<noteq> None)"

definition os_path_isfile :: "state \<Rightarrow> string \<Rightarrow> bool" where
  "os_path_isfile s path =
     (case resolve s path of Inl e \<Rightarrow> False
      | Inr k \<Rightarrow> (case node_at (nodes s) k of Some (File c) \<Rightarrow> True | _ \<Rightarrow> False))"

definition os_path_isdir :: "state \<Rightarrow> string \<Rightarrow> bool" where
  "os_path_isdir s path =
     (case resolve s path of Inl e \<Rightarrow> False | Inr k \<Rightarrow> node_at (nodes s) k = Some Dir)"

text \<open>
  \<^verbatim>\<open>os.makedirs(name)\<close>: every missing directory on the way is created, then the
  directory itself, which must not exist yet. Directories created before a failure
  stay. The directory the path starts from must exist.
\<close>

fun makedirs_walk :: "(key \<rightharpoonup> node) \<Rightarrow> key \<Rightarrow> string list \<Rightarrow> (error + unit) \<times> (key \<rightharpoonup> node)" where
  "makedirs_walk ns cur [] =
     (case node_at ns cur of None \<Rightarrow> (Inr (), ns(cur \<mapsto> Dir)) | Some n \<Rightarrow> (Inl OSError, ns))"
| "makedirs_walk ns cur (c # cs) =
     (case node_at ns cur of
        Some (File f) \<Rightarrow> (Inl OSError, ns)
      | Some Dir \<Rightarrow> makedirs_walk ns (step_key cur c) cs
      | None \<Rightarrow> makedirs_walk (ns(cur \<mapsto> Dir)) (step_key cur c) cs)"

definition os_makedirs :: "string \<Rightarrow> (unit, state) exc" where
  "os_makedirs name s =
     (let start = (if name \<noteq> [] \<and> hd name = sep then [] else cwd s) in
      if node_at (nodes s) start \<noteq> Some Dir then (Inl OSError, s)
      else (case makedirs_walk (nodes s) start
                   (filter (\<lambda>c. c \<noteq> [] \<and> c \<noteq> ''.'') (split_sep name)) of
              (r, ns) \<Rightarrow> (r, s\<lparr>nodes := ns\<rparr>)))"

text \<open>
  \<^verbatim>\<open>open(path, mode)\<close> for the modes the module and its libraries use. Writing and
  appending create a missing file in an existing directory; writing empties an
  existing file. The handle that is returned is the key of the file, and is counted in
  \<open>open_handles\<close> until it is closed.
\<close>

datatype mode = Read_mode | Write_mode | Append_mode

definition py_open :: "string \<Rightarrow> mode \<Rightarrow> (key, state) exc" where
  "py_open path md s =
     (case resolve s path of
        Inl e \<Rightarrow> (Inl e, s)
      | Inr k \<Rightarrow>
          (case node_at (nodes s) k of
             Some Dir \<Rightarrow> (Inl OSError, s)
           | Some (File c) \<Rightarrow>
               (Inr k, s\<lparr>nodes := (if md = Write_mode then (nodes s)(k \<mapsto> File []) else nodes s),
                         open_handles := open_handles s + {#k#}\<rparr>)
           | None \<Rightarrow>
               (if md = Read_mode then (Inl OSError, s)
                else (Inr k, s\<lparr>nodes := (nodes s)(k \<mapsto> File []),
                               open_handles := open_handles s + {#k#}\<rparr>))))"

definition py_close :: "key \<Rightarrow> state \<Rightarrow> state" where
  "py_close h s = s\<lparr>open_handles := open_handles s - {#h#}\<rparr>"

text \<open>
  \<^verbatim>\<open>with open(path, mode) as file: body\<close>: the file is closed when the body is left,
  also by an exception.
\<close>

definition with_open :: "string \<Rightarrow> mode \<Rightarrow> (key \<Rightarrow> ('a, state) exc) \<Rightarrow> ('a, state) exc" where
  "with_open path md body =
     exc_bind (py_open path md) (\<lambda>file s. case body file s of (r, s') \<Rightarrow> (r, py_close file s'))"

text \<open>Writing to an open file puts the chunk at its end.\<close>

definition file_write :: "key \<Rightarrow> chunk \<Rightarrow> (unit, state) exc" where
  "file_write file ch s =
     (case nodes s file of
        Some (File c) \<Rightarrow> (Inr (), s\<lparr>nodes := (nodes s)(file \<mapsto> File (c @ [ch]))\<rparr>)
      | _ \<Rightarrow> (Inl OSError, s))"

text \<open>\<^verbatim>\<open>csv.writer(file).writerow(row)\<close>\<close>

definition writerow :: "key \<Rightarrow> cell list \<Rightarrow> (unit, state) exc" where
  "writerow file row = file_write file (Row row)"

definition file_read :: "key \<Rightarrow> (chunk list, state) exc" where
  "file_read file s =
     (case nodes s file of Some (File c) \<Rightarrow> (Inr c, s) | _ \<Rightarrow> (Inl OSError, s))"

subsection \<open>\<^verbatim>\<open>torch.save\<close> and \<^verbatim>\<open>torch.load\<close>\<close>

text \<open>
  \<^verbatim>\<open>torch.save(obj, f)\<close> opens \<open>f\<close> for writing, writes the serialised object and closes
  the file.
\<close>

definition torch_save :: "pyval \<Rightarrow> string \<Rightarrow> (unit, state) exc" where
  "torch_save obj f = with_open f Write_mode (\<lambda>file. file_write file (Blob obj))"

datatype device = Cpu | Cuda

text \<open>
  \<^verbatim>\<open>torch.load(f, map_location)\<close> opens \<open>f\<close> for reading and returns the object the file
  holds; a file that holds anything else than one serialised object is malformed.
  \<open>map_location\<close> chooses the device the tensors are put on, which this model does not
  represent, so it does not change the result.
\<close>

definition unpickle :: "chunk list \<Rightarrow> error + pyval" where
  "unpickle c = (case c of [Blob v] \<Rightarrow> Inr v | _ \<Rightarrow> Inl UnpicklingError)"

definition torch_load :: "string \<Rightarrow> device option \<Rightarrow> (pyval, state) exc" where
  "torch_load f map_location =
     with_open f Read_mode (\<lambda>file. exc_bind (file_read file) (\<lambda>c. exc_of (unpickle c)))"

subsection \<open>Methods on the objects in the store\<close>

text \<open>\<^verbatim>\<open>model.load_state_dict(sd)\<close> and \<^verbatim>\<open>optimizer.load_state_dict(sd)\<close> mutate the object in place.\<close>

definition model_load_state_dict :: "nat \<Rightarrow> pyval \<Rightarrow> (unit, state) exc" where
  "model_load_state_dict model sd s =
     (case module_load_state_dict (modules s model) sd of
        (r, m') \<Rightarrow> (r, s\<lparr>modules := (modules s)(model := m')\<rparr>))"

definition optim_load_state_dict :: "nat \<Rightarrow> pyval \<Rightarrow> (unit, state) exc" where
  "optim_load_state_dict optimizer sd s =
     (case optimizer_load_state_dict (optimizers s optimizer) sd of
        (r, opt') \<Rightarrow> (r, s\<lparr>optimizers := (optimizers s)(optimizer := opt')\<rparr>))"

subsection \<open>\<^verbatim>\<open>fix_all_seeds\<close>\<close>

definition random_seed_set :: "int \<Rightarrow> (unit, state) exc" where
  "random_seed_set seed s = (Inr (), s\<lparr>process := (process s)\<lparr>random_seed := Some seed\<rparr>\<rparr>)"

text \<open>\<^verbatim>\<open>np.random.seed\<close> accepts a seed between 0 and 2**32 - 1.\<close>

definition np_random_seed_set :: "int \<Rightarrow> (unit, state) exc" where
  "np_random_seed_set seed s =
     (if 0 \<le> seed \<and> seed < 2 ^ 32
      then (Inr (), s\<lparr>process := (process s)\<lparr>np_random_seed := Some seed\<rparr>\<rparr>)
      else (Inl ValueError, s))"

definition environ_set :: "string \<Rightarrow> string \<Rightarrow> (unit, state) exc" where
  "environ_set name v s =
     (Inr (), s\<lparr>process := (process s)\<lparr>environ := (environ (process s))(name \<mapsto> v)\<rparr>\<rparr>)"

text \<open>
  \<^verbatim>\<open>torch.manual_seed\<close> accepts a seed between -2**63 and 2**64 - 1 and maps a negative
  one to \<open>0xffff_ffff_ffff_ffff + seed\<close>.
\<close>

definition torch_manual_seed :: "int \<Rightarrow> (unit, state) exc" where
  "torch_manual_seed seed s =
     (if - (2 ^ 63) \<le> seed \<and> seed < 2 ^ 64
      then (Inr (), s\<lparr>process := (process s)\<lparr>torch_seed :=
              Some (if seed < 0 then 2 ^ 64 - 1 + seed else seed)\<rparr>\<rparr>)
      else (Inl RuntimeError, s))"

definition torch_cuda_manual_seed_all :: "int \<Rightarrow> (unit, state) exc" where
  "torch_cuda_manual_seed_all seed s =
     (Inr (), s\<lparr>process := (process s)\<lparr>cuda_seed := Some seed\<rparr>\<rparr>)"

definition fix_all_seeds :: "int \<Rightarrow> (unit, state) exc" where
  "fix_all_seeds seed =
     exc_bind (random_seed_set seed) (\<lambda>_.
     exc_bind (np_random_seed_set seed) (\<lambda>_.
     exc_bind (environ_set ''PYTHONHASHSEED'' (str_int seed)) (\<lambda>_.
     exc_bind (torch_manual_seed seed) (\<lambda>_.
     (\<lambda>s. if cuda_is_available s then torch_cuda_manual_seed_all seed s else (Inr (), s))))))"

subsection \<open>\<^verbatim>\<open>create_logger\<close>\<close>

text \<open>
  \<^verbatim>\<open>logging.basicConfig(filename=fn, format=...)\<close> does nothing when the root logger
  already has a handler. Otherwise it makes a file handler, which opens \<open>fn\<close> for
  appending and keeps it open, and adds it to the root logger.
\<close>

definition logging_basicConfig :: "string \<Rightarrow> (unit, state) exc" where
  "logging_basicConfig filename s =
     (if root_handlers (process s) = []
      then exc_bind (py_open filename Append_mode)
             (\<lambda>h s'. (Inr (), s'\<lparr>process := (process s')\<lparr>root_handlers := [FileHandler h]\<rparr>\<rparr>)) s
      else (Inr (), s))"

text \<open>\<^verbatim>\<open>logging.getLogger()\<close> returns the root logger, of which there is one.\<close>

datatype logger = RootLogger

definition logging_INFO :: nat where
  "logging_INFO = 20"

definition logger_setLevel :: "nat \<Rightarrow> (unit, state) exc" where
  "logger_setLevel lvl s = (Inr (), s\<lparr>process := (process s)\<lparr>root_level := lvl\<rparr>\<rparr>)"

definition logger_addHandler :: "handler \<Rightarrow> (unit, state) exc" where
  "logger_addHandler h s =
     (Inr (), s\<lparr>process := (process s)\<lparr>root_handlers := root_handlers (process s) @ [h]\<rparr>\<rparr>)"

definition experiment_dir :: "string \<Rightarrow> string" where
  "experiment_dir experiment_id = os_path_join ''out'' [experiment_id]"

definition log_dir :: "string \<Rightarrow> string" where
  "log_dir experiment_id = os_path_join (experiment_dir experiment_id) [''logs'']"

definition log_fn :: "string \<Rightarrow> struct_time \<Rightarrow> string" where
  "log_fn experiment_id now = os_path_join (log_dir experiment_id) [strftime now @ ''.log'']"

text \<open>\<open>now\<close> is the local time at the call, which \<^verbatim>\<open>time.strftime\<close> reads from the clock.\<close>

definition create_logger :: "string \<Rightarrow> struct_time \<Rightarrow> (logger, state) exc" where
  "create_logger experiment_id now =
     exc_bind (\<lambda>s. if \<not> os_path_exists s (log_dir experiment_id)
                   then os_makedirs (log_dir experiment_id) s else (Inr (), s)) (\<lambda>_.
     exc_bind (logging_basicConfig (log_fn experiment_id now)) (\<lambda>_.
     exc_bind (logger_setLevel logging_INFO) (\<lambda>_.
     exc_bind (\<lambda>s. if length (root_handlers (process s)) = 1
                   then logger_addHandler StreamHandler s else (Inr (), s)) (\<lambda>_.
     exc_return RootLogger))))"

subsection \<open>\<^verbatim>\<open>save_plotting_data\<close>\<close>

definition plotting_fn :: "string \<Rightarrow> string \<Rightarrow> string" where
  "plotting_fn experiment_id metric = os_path_join ''out'' [experiment_id, metric @ ''.csv'']"

definition save_plotting_data :: "string \<Rightarrow> string \<Rightarrow> int \<Rightarrow> pyfloat \<Rightarrow> (unit, state) exc" where
  "save_plotting_data experiment_id metric epoch metric_val =
     (let fn = plotting_fn experiment_id metric in
      exc_bind (\<lambda>s. if \<not> os_path_isfile s fn
                    then with_open fn Write_mode (\<lambda>file. writerow file [CStr ''epoch'', CStr metric]) s
                    else (Inr (), s)) (\<lambda>_.
      with_open fn Append_mode (\<lambda>file. writerow file [CInt epoch, CFloat metric_val])))"

subsection \<open>\<^verbatim>\<open>save_checkpoint\<close>, \<^verbatim>\<open>load_checkpoint\<close>, \<^verbatim>\<open>load_best_model\<close>, \<^verbatim>\<open>save_model\<close>\<close>

text \<open>The dictionary \<open>d\<close> that \<^verbatim>\<open>save_checkpoint\<close> builds.\<close>

definition checkpoint_dict :: "int \<Rightarrow> pyfloat \<Rightarrow> nn_module \<Rightarrow> optimizer \<Rightarrow> pyval" where
  "checkpoint_dict next_epoch best_acc m opt =
     PyDict [''next_epoch'' \<mapsto> PyInt next_epoch,
             ''best_acc'' \<mapsto> PyFloat best_acc,
             ''model_state_dict'' \<mapsto> module_state_dict m,
             ''optimizer_state_dict'' \<mapsto> optimizer_state_dict opt]"

definition saved_path :: "string \<Rightarrow> string \<Rightarrow> string" where
  "saved_path experiment_id filename = os_path_join (experiment_dir experiment_id) [filename]"

definition save_checkpoint :: "string \<Rightarrow> int \<Rightarrow> pyfloat \<Rightarrow> nat \<Rightarrow> nat \<Rightarrow> string \<Rightarrow> (unit, state) exc" where
  "save_checkpoint experiment_id next_epoch best_acc model optimizer filename s =
     (let d = checkpoint_dict next_epoch best_acc (modules s model) (optimizers s optimizer)
      in torch_save d (saved_path experiment_id filename) s)"

text \<open>The default value of the parameter \<open>filename\<close>.\<close>

definition default_filename :: string where
  "default_filename = ''checkpoint.pth.tar''"

definition checkpoint_path :: "string \<Rightarrow> string" where
  "checkpoint_path experiment_id = os_path_join ''out'' [experiment_id, ''checkpoint.pth.tar'']"

definition load_checkpoint :: "string \<Rightarrow> nat \<Rightarrow> nat \<Rightarrow> (nat \<times> nat \<times> pyval \<times> pyval, state) exc" where
  "load_checkpoint experiment_id model optimizer =
     (let filename = checkpoint_path experiment_id in
      exc_bind (torch_load filename None) (\<lambda>checkpoint.
      exc_bind (exc_of (py_getitem checkpoint ''model_state_dict'')) (\<lambda>msd.
      exc_bind (model_load_state_dict model msd) (\<lambda>_.
      exc_bind (exc_of (py_getitem checkpoint ''optimizer_state_dict'')) (\<lambda>osd.
      exc_bind (optim_load_state_dict optimizer osd) (\<lambda>_.
      exc_bind (exc_of (py_getitem checkpoint ''next_epoch'')) (\<lambda>next_epoch.
      exc_bind (exc_of (py_getitem checkpoint ''best_acc'')) (\<lambda>best_acc.
      exc_return (model, optimizer, next_epoch, best_acc)))))))))"

definition best_model_path :: "string \<Rightarrow> string" where
  "best_model_path experiment_id = os_path_join ''out'' [experiment_id, ''best_model.pth.tar'']"

definition load_best_model :: "string \<Rightarrow> nat \<Rightarrow> (nat, state) exc" where
  "load_best_model experiment_id model s =
     (let filename = best_model_path experiment_id in
      exc_bind (torch_load filename (Some (if cuda_is_available s then Cuda else Cpu)))
        (\<lambda>model_state_dict.
      exc_bind (model_load_state_dict model model_state_dict) (\<lambda>_.
      exc_return model)) s)"

definition save_model :: "nat \<Rightarrow> string \<Rightarrow> string \<Rightarrow> (unit, state) exc" where
  "save_model model experiment_id filename s =
     torch_save (module_state_dict (modules s model)) (saved_path experiment_id filename) s"

subsection \<open>Observing a file, and a sequence of calls\<close>

text \<open>
  What a file holds when it is read back: the chunks written to it, in order; nothing
  when the path does not name a file.
\<close>

definition file_content :: "state \<Rightarrow> string \<Rightarrow> chunk list option" where
  "file_content s path =
     (case resolve s path of
        Inl e \<Rightarrow> None
      | Inr k \<Rightarrow> (case node_at (nodes s) k of Some (File c) \<Rightarrow> Some c | _ \<Rightarrow> None))"


definition data_row :: "int \<times> pyfloat \<Rightarrow> chunk" where
  "data_row c = Row [CInt (fst c), CFloat (snd c)]"

definition header_row :: "string \<Rightarrow> chunk" where
  "header_row metric = Row [CStr ''epoch'', CStr metric]"

text \<open>
  Two paths name the same node in every file system and from every working directory:
  both are relative or both absolute, and they resolve alike.
\<close>

definition same_path :: "string \<Rightarrow> string \<Rightarrow> bool" where
  "same_path p q =
     (p \<noteq> [] \<and> q \<noteq> [] \<and> (hd p = sep) = (hd q = sep) \<and>
      (\<forall>ns cur. walk ns cur (split_sep p) = walk ns cur (split_sep q)))"

text \<open>
  A function neither reads nor writes the process-global state: run with another one,
  it returns the same result and the same state, with that other one in place.
\<close>

definition ignores_process :: "('a, state) exc \<Rightarrow> bool" where
  "ignores_process f =
     (\<forall>s g. f (s\<lparr>process := g\<rparr>) = (fst (f s), (snd (f s))\<lparr>process := g\<rparr>))"

subsection \<open>Example states\<close>

text \<open>
  A process that has configured nothing yet; a model with one parameter, which the
  store holds at every address but 1, where the same model is with other values; an
  optimizer with one parameter group; and three file systems: one in which the
  directory of the experiment \<^verbatim>\<open>exp\<close> exists below the working directory \<^verbatim>\<open>/home\<close>,
  one in which there is no \<^verbatim>\<open>out\<close> directory at all, one in which the file of the best
  model holds a row of a metrics file.
\<close>

definition fresh_process :: globals where
  "fresh_process =
     \<lparr>root_handlers = [], root_level = 30, random_seed = None, np_random_seed = None,
      torch_seed = None, cuda_seed = None, environ = Map.empty\<rparr>"

definition example_module :: nn_module where
  "example_module = \<lparr>params = [''w'' \<mapsto> Tensor [2] [1, 2]]\<rparr>"

definition untrained_module :: nn_module where
  "untrained_module = \<lparr>params = [''w'' \<mapsto> Tensor [2] [0, 0]]\<rparr>"

definition example_optimizer :: optimizer where
  "example_optimizer =
     \<lparr>param_groups = [\<lparr>hyper = [''lr'' \<mapsto> 5], n_params = 1\<rparr>], opt_state = Map.empty\<rparr>"

definition example_time :: struct_time where
  "example_time = \<lparr>tm_year = 2022, tm_mon = 5, tm_mday = 1, tm_hour = 9, tm_min = 30\<rparr>"

definition example_state :: state where
  "example_state =
     \<lparr>cwd = [''home''],
      nodes = [[''home''] \<mapsto> Dir, [''tmp''] \<mapsto> Dir, [''home'', ''out''] \<mapsto> Dir,
               [''home'', ''out'', ''exp''] \<mapsto> Dir],
      open_handles = {#},
      process = fresh_process,
      cuda_is_available = False,
      modules = (\<lambda>a. if a = 1 then untrained_module else example_module),
      optimizers = (\<lambda>a. example_optimizer)\<rparr>"

definition bare_state :: state where
  "bare_state = example_state\<lparr>nodes := [[''home''] \<mapsto> Dir, [''tmp''] \<mapsto> Dir]\<rparr>"

definition garbled_state :: state where
  "garbled_state =
     example_state\<lparr>nodes := (nodes example_state)
       ([''home'', ''out'', ''exp'', ''best_model.pth.tar''] \<mapsto> File [header_row ''acc''])\<rparr>"

text \<open>The process and the file system after a logger was created for another experiment.\<close>

definition logged_state :: state where
  "logged_state = snd (create_logger ''other'' example_time example_state)"

section \<open>Properties\<close>

subsection \<open>How the calls compose\<close>

lemmas path_defs =
  saved_path_def experiment_dir_def os_path_join_def join_step_def sep_def checkpoint_path_def
  best_model_path_def plotting_fn_def log_dir_def log_fn_def default_filename_def

lemmas example_defs =
  example_state_def bare_state_def garbled_state_def fresh_process_def example_module_def
  untrained_module_def example_optimizer_def example_time_def

lemma walk_same_dirs:
  "(\<And>k. (node_at ns' k = Some Dir) = (node_at ns k = Some Dir)) \<Longrightarrow>
   walk ns' cur cs = walk ns cur cs"
  by (induction cs arbitrary: cur) simp_all

lemma node_at_upd_file:
  "node_at ns k \<noteq> Some Dir \<Longrightarrow>
   (node_at (ns(k \<mapsto> File c)) j = Some Dir) = (node_at ns j = Some Dir)"
  by (auto simp: node_at_def)

lemma walk_upd_file:
  "node_at ns k \<noteq> Some Dir \<Longrightarrow> walk (ns(k \<mapsto> File c)) cur cs = walk ns cur cs"
  by (rule walk_same_dirs) (rule node_at_upd_file)

lemma resolve_upd_file:
  "node_at (nodes s) k \<noteq> Some Dir \<Longrightarrow>
   resolve (s\<lparr>nodes := (nodes s)(k \<mapsto> File c)\<rparr>) p = resolve s p"
  by (simp add: resolve_def walk_upd_file)

text \<open>What \<^verbatim>\<open>torch.save\<close> and \<^verbatim>\<open>torch.load\<close> come to, once the file is closed again.\<close>

lemma torch_save_eq:
  "torch_save obj f s =
     (case resolve s f of
        Inl e \<Rightarrow> (Inl e, s)
      | Inr k \<Rightarrow> (case node_at (nodes s) k of
                    Some Dir \<Rightarrow> (Inl OSError, s)
                  | _ \<Rightarrow> (Inr (), s\<lparr>nodes := (nodes s)(k \<mapsto> File [Blob obj])\<rparr>)))"
  by (auto simp: torch_save_def with_open_def py_open_def py_close_def file_write_def exc_bind_def
      split: sum.splits option.splits node.splits)

lemma torch_load_eq:
  "torch_load f ml s =
     (case resolve s f of
        Inl e \<Rightarrow> (Inl e, s)
      | Inr k \<Rightarrow> (case node_at (nodes s) k of
                    Some (File c) \<Rightarrow> (unpickle c, s)
                  | _ \<Rightarrow> (Inl OSError, s)))"
  by (auto simp: torch_load_def with_open_def py_open_def py_close_def file_read_def exc_bind_def
      exc_of_def node_at_def split: sum.splits option.splits node.splits if_splits)

lemma saved_path_default: "saved_path experiment_id default_filename = checkpoint_path experiment_id"
  by (simp add: saved_path_def checkpoint_path_def experiment_dir_def os_path_join_def
      default_filename_def)

lemma module_load_own: "module_load_state_dict m (module_state_dict m) = (Inr (), m)"
proof -
  have "(\<lambda>k. case params m k of None \<Rightarrow> None
             | Some t \<Rightarrow> Some (copy_param t ((map_option PyTensor \<circ> params m) k))) = params m"
    by (rule ext) (simp add: copy_param_def split: option.splits)
  moreover have "\<forall>k \<in> dom (params m). loadable (the (params m k)) ((map_option PyTensor \<circ> params m) k)"
    by (auto simp: loadable_def)
  ultimately show ?thesis
    by (simp add: module_load_state_dict_def module_state_dict_def Let_def)
qed

lemma optimizer_load_own: "optimizer_load_state_dict opt (optimizer_state_dict opt) = (Inr (), opt)"
  by (simp add: optimizer_load_state_dict_def optimizer_state_dict_def)

lemma checkpoint_dict_items:
  "py_getitem (checkpoint_dict ne ba m opt) ''model_state_dict'' = Inr (module_state_dict m)"
  "py_getitem (checkpoint_dict ne ba m opt) ''optimizer_state_dict'' = Inr (optimizer_state_dict opt)"
  "py_getitem (checkpoint_dict ne ba m opt) ''next_epoch'' = Inr (PyInt ne)"
  "py_getitem (checkpoint_dict ne ba m opt) ''best_acc'' = Inr (PyFloat ba)"
  by (simp_all add: checkpoint_dict_def)

lemma torch_load_state: "snd (torch_load f ml s) = s"
  by (simp add: torch_load_eq split: sum.splits option.splits node.splits)

lemma walk_error: "walk ns cur cs = Inl e \<Longrightarrow> e = OSError"
  by (induction cs arbitrary: cur) (auto split: if_splits)

lemma resolve_error: "resolve s p = Inl e \<Longrightarrow> e = OSError"
  by (auto simp: resolve_def split: if_splits dest: walk_error)

lemma torch_load_missing: "\<not> os_path_isfile s p \<Longrightarrow> torch_load p ml s = (Inl OSError, s)"
  by (auto simp: os_path_isfile_def torch_load_eq split: sum.splits option.splits node.splits
      dest: resolve_error)

text \<open>The examples, evaluated.\<close>

lemma example_store:
  "modules example_state 0 = example_module"
  "modules example_state 1 = untrained_module"
  "modules example_state (Suc 0) = untrained_module"
  "optimizers example_state a = example_optimizer"
  "cuda_is_available example_state = False"
  "cuda_is_available garbled_state = False"
  by (simp_all add: example_state_def garbled_state_def)

lemma example_resolve:
  "resolve example_state (checkpoint_path ''exp'')
     = Inr [''home'', ''out'', ''exp'', ''checkpoint.pth.tar'']"
  "resolve example_state (saved_path ''exp'' ''last.pth.tar'')
     = Inr [''home'', ''out'', ''exp'', ''last.pth.tar'']"
  "resolve example_state (plotting_fn ''exp'' ''acc'')
     = Inr [''home'', ''out'', ''exp'', ''acc.csv'']"
  "resolve garbled_state (best_model_path ''exp'')
     = Inr [''home'', ''out'', ''exp'', ''best_model.pth.tar'']"
  by (simp_all add: resolve_def path_defs example_defs node_at_def step_key_def)

lemma example_nodes:
  "node_at (nodes example_state) [''home'', ''out'', ''exp'', ''checkpoint.pth.tar''] = None"
  "node_at (nodes example_state) [''home'', ''out'', ''exp'', ''last.pth.tar''] = None"
  "node_at (nodes example_state) [''home'', ''out'', ''exp'', ''acc.csv''] = None"
  "node_at (nodes garbled_state) [''home'', ''out'', ''exp'', ''best_model.pth.tar'']
     = Some (File [header_row ''acc''])"
  by (simp_all add: example_defs node_at_def)

lemma example_save_checkpoint:
  "save_checkpoint ''exp'' 3 7 0 0 default_filename example_state =
     (Inr (), example_state\<lparr>nodes := (nodes example_state)
        ([''home'', ''out'', ''exp'', ''checkpoint.pth.tar''] \<mapsto>
           File [Blob (checkpoint_dict 3 7 example_module example_optimizer)])\<rparr>)"
  by (simp add: save_checkpoint_def saved_path_default torch_save_eq example_resolve example_nodes
      example_store)

subsection \<open>Saving and reloading a checkpoint\<close>

text \<open>
  Claim C1. When \<^verbatim>\<open>save_checkpoint\<close> has written a checkpoint under the default file
  name, \<^verbatim>\<open>load_checkpoint\<close> for the same experiment, model and optimizer returns
  normally, and the epoch and the accuracy it returns are the ones that were saved.
\<close>

theorem checkpoint_roundtrip:
  assumes "fst (save_checkpoint experiment_id next_epoch best_acc model optimizer default_filename s)
           = Inr ()"
  shows "fst (load_checkpoint experiment_id model optimizer
            (snd (save_checkpoint experiment_id next_epoch best_acc model optimizer
                    default_filename s)))
         = Inr (model, optimizer, PyInt next_epoch, PyFloat best_acc)"
proof -
  let ?p = "checkpoint_path experiment_id"
  let ?d = "checkpoint_dict next_epoch best_acc (modules s model) (optimizers s optimizer)"
  have sv: "save_checkpoint experiment_id next_epoch best_acc model optimizer default_filename s
            = torch_save ?d ?p s"
    by (simp add: save_checkpoint_def saved_path_default)
  from assms obtain k where k: "resolve s ?p = Inr k" and nd: "node_at (nodes s) k \<noteq> Some Dir"
    and s': "snd (torch_save ?d ?p s) = s\<lparr>nodes := (nodes s)(k \<mapsto> File [Blob ?d])\<rparr>"
    unfolding sv by (auto simp: torch_save_eq split: sum.splits option.splits node.splits)
  let ?s' = "s\<lparr>nodes := (nodes s)(k \<mapsto> File [Blob ?d])\<rparr>"
  from nd have k0: "k \<noteq> []" by (auto simp: node_at_def)
  have ld: "torch_load ?p None ?s' = (Inr ?d, ?s')"
    using k nd k0 by (simp add: torch_load_eq resolve_upd_file node_at_def unpickle_def)
  have m: "model_load_state_dict model (module_state_dict (modules s model)) ?s' = (Inr (), ?s')"
    by (simp add: model_load_state_dict_def module_load_own)
  have opt: "optim_load_state_dict optimizer (optimizer_state_dict (optimizers s optimizer)) ?s'
             = (Inr (), ?s')"
    by (simp add: optim_load_state_dict_def optimizer_load_own)
  have "load_checkpoint experiment_id model optimizer ?s'
        = (Inr (model, optimizer, PyInt next_epoch, PyFloat best_acc), ?s')"
    by (simp add: load_checkpoint_def Let_def exc_bind_def exc_of_def exc_return_def ld m opt
        checkpoint_dict_items)
  then show ?thesis by (simp add: sv s')
qed

theorem checkpoint_roundtrip_witness:
  "fst (save_checkpoint ''exp'' 3 7 0 0 default_filename example_state) = Inr () \<and>
   fst (load_checkpoint ''exp'' 0 0
          (snd (save_checkpoint ''exp'' 3 7 0 0 default_filename example_state)))
     = Inr (0, 0, PyInt 3, PyFloat 7)"
proof -
  have h: "fst (save_checkpoint ''exp'' 3 7 0 0 default_filename example_state) = Inr ()"
    by (simp add: example_save_checkpoint)
  show ?thesis using h checkpoint_roundtrip [OF h] by simp
qed

subsection \<open>What a checkpoint file holds\<close>

text \<open>
  Claim C4. A checkpoint that \<^verbatim>\<open>save_checkpoint\<close> has written is the serialisation of
  one dictionary, whose keys are exactly \<^verbatim>\<open>next_epoch\<close>, \<^verbatim>\<open>best_acc\<close>,
  \<^verbatim>\<open>model_state_dict\<close> and \<^verbatim>\<open>optimizer_state_dict\<close>, and whose values are the epoch and
  the accuracy passed to the call, the state dict of the model and the state dict of
  the optimizer.
\<close>

theorem checkpoint_contents:
  assumes "fst (save_checkpoint experiment_id next_epoch best_acc model optimizer filename s) = Inr ()"
  shows "\<exists>d. file_content
                (snd (save_checkpoint experiment_id next_epoch best_acc model optimizer filename s))
                (saved_path experiment_id filename)
              = Some [Blob (PyDict d)] \<and>
           dom d = {''next_epoch'', ''best_acc'', ''model_state_dict'', ''optimizer_state_dict''} \<and>
           d ''next_epoch'' = Some (PyInt next_epoch) \<and>
           d ''best_acc'' = Some (PyFloat best_acc) \<and>
           d ''model_state_dict'' = Some (module_state_dict (modules s model)) \<and>
           d ''optimizer_state_dict'' = Some (optimizer_state_dict (optimizers s optimizer))"
proof -
  let ?p = "saved_path experiment_id filename"
  let ?d = "checkpoint_dict next_epoch best_acc (modules s model) (optimizers s optimizer)"
  have sv: "save_checkpoint experiment_id next_epoch best_acc model optimizer filename s
            = torch_save ?d ?p s"
    by (simp add: save_checkpoint_def)
  from assms obtain k where k: "resolve s ?p = Inr k" and nd: "node_at (nodes s) k \<noteq> Some Dir"
    and s': "snd (torch_save ?d ?p s) = s\<lparr>nodes := (nodes s)(k \<mapsto> File [Blob ?d])\<rparr>"
    unfolding sv by (auto simp: torch_save_eq split: sum.splits option.splits node.splits)
  from nd have k0: "k \<noteq> []" by (auto simp: node_at_def)
  have "file_content (s\<lparr>nodes := (nodes s)(k \<mapsto> File [Blob ?d])\<rparr>) ?p = Some [Blob ?d]"
    using k nd k0 by (simp add: file_content_def resolve_upd_file node_at_def)
  then show ?thesis
    unfolding sv s' by (simp add: checkpoint_dict_def) auto
qed

theorem checkpoint_contents_witness:
  "fst (save_checkpoint ''exp'' 3 7 0 0 ''last.pth.tar'' example_state) = Inr () \<and>
   (\<exists>d. file_content (snd (save_checkpoint ''exp'' 3 7 0 0 ''last.pth.tar'' example_state))
           (saved_path ''exp'' ''last.pth.tar'')
         = Some [Blob (PyDict d)] \<and>
        dom d = {''next_epoch'', ''best_acc'', ''model_state_dict'', ''optimizer_state_dict''} \<and>
        d ''next_epoch'' = Some (PyInt 3) \<and>
        d ''best_acc'' = Some (PyFloat 7) \<and>
        d ''model_state_dict'' = Some (module_state_dict example_module) \<and>
        d ''optimizer_state_dict'' = Some (optimizer_state_dict example_optimizer))"
proof -
  have h: "fst (save_checkpoint ''exp'' 3 7 0 0 ''last.pth.tar'' example_state) = Inr ()"
    by (simp add: save_checkpoint_def torch_save_eq example_resolve example_nodes)
  show ?thesis using h checkpoint_contents [OF h] by (simp add: example_store)
qed

subsection \<open>Failures of loading\<close>

lemma load_checkpoint_Inl:
  "fst (torch_load (checkpoint_path experiment_id) None s) = Inl e \<Longrightarrow>
   load_checkpoint experiment_id model optimizer s = (Inl e, s)"
  using torch_load_state [of "checkpoint_path experiment_id" None s]
  by (cases "torch_load (checkpoint_path experiment_id) None s")
     (simp add: load_checkpoint_def Let_def exc_bind_def)




subsection \<open>Loading updates the caller's objects\<close>






subsection \<open>The metrics file\<close>

lemma save_plotting_data_eq:
  "save_plotting_data experiment_id metric epoch metric_val s =
     (case resolve s (plotting_fn experiment_id metric) of
        Inl e \<Rightarrow> (Inl e, s)
      | Inr k \<Rightarrow> (case node_at (nodes s) k of
                    Some Dir \<Rightarrow> (Inl OSError, s)
                  | Some (File c) \<Rightarrow>
                      (Inr (), s\<lparr>nodes := (nodes s)(k \<mapsto> File (c @ [data_row (epoch, metric_val)]))\<rparr>)
                  | None \<Rightarrow>
                      (Inr (), s\<lparr>nodes := (nodes s)(k \<mapsto> File [header_row metric,
                                                                   data_row (epoch, metric_val)])\<rparr>)))"
  by (auto simp: save_plotting_data_def Let_def with_open_def py_open_def py_close_def file_write_def
      writerow_def exc_bind_def os_path_isfile_def resolve_upd_file node_at_def data_row_def
      header_row_def split: sum.splits option.splits node.splits if_splits)






subsection \<open>The layout of the paths\<close>

lemma split_sep_nonempty: "split_sep p \<noteq> []"
  by (induction p) (auto split: list.splits)

lemma split_sep_append: "split_sep (xs @ sep # ys) = split_sep xs @ split_sep ys"
  by (induction xs) (auto split: list.splits simp: split_sep_nonempty)

lemma walk_append:
  "walk ns cur (xs @ ys) = (case walk ns cur xs of Inl e \<Rightarrow> Inl e | Inr k \<Rightarrow> walk ns k ys)"
  by (induction xs arbitrary: cur) simp_all

lemma walk_skip_empty: "ys \<noteq> [] \<Longrightarrow> walk ns cur ([] # ys) = walk ns cur ys"
  by (cases ys) (simp_all add: step_key_def)

lemma same_path_refl: "p \<noteq> [] \<Longrightarrow> same_path p p"
  by (simp add: same_path_def)

lemma same_path_trans: "same_path p q \<Longrightarrow> same_path q r \<Longrightarrow> same_path p r"
  by (simp add: same_path_def)

lemma same_path_resolve: "same_path p q \<Longrightarrow> resolve s p = resolve s q"
  by (simp add: same_path_def resolve_def)

lemma same_path_extend: "same_path p q \<Longrightarrow> same_path (p @ sep # b) (q @ sep # b)"
  by (simp add: same_path_def split_sep_append walk_append)

lemma same_path_join_step:
  assumes "b = [] \<or> hd b \<noteq> sep" and "p \<noteq> []"
  shows "same_path (join_step p b) (p @ sep # b)"
proof (cases "last p = sep")
  case False
  with assms show ?thesis by (auto simp: join_step_def same_path_def)
next
  case True
  with assms(2) obtain p' where p: "p = p' @ [sep]"
    by (metis append_butlast_last_id)
  have j: "join_step p b = p' @ sep # b"
    using assms by (auto simp: join_step_def p)
  have "walk ns cur (split_sep (p' @ sep # b)) = walk ns cur (split_sep ((p' @ [sep]) @ sep # b))"
    for ns cur
    by (simp add: split_sep_append walk_append split_sep_nonempty walk_skip_empty
        del: walk.simps split: sum.splits)
  then show ?thesis
    unfolding j using assms(2) by (cases p') (simp_all add: same_path_def p)
qed

lemma join_step_literal:
  "b = [] \<or> hd b \<noteq> sep \<Longrightarrow> p \<noteq> [] \<Longrightarrow> last p \<noteq> sep \<Longrightarrow> join_step p b = p @ sep # b"
  by (auto simp: join_step_def)

lemma str_nat_nonempty: "str_nat n \<noteq> []"
  by (subst str_nat.simps) simp

lemma hd_str_nat: "hd (str_nat n) \<in> set ''0123456789''"
proof (induction n rule: str_nat.induct)
  case (1 n)
  show ?case
  proof (cases "n < 10")
    case True
    have "''0123456789'' ! (n mod 10) \<in> set ''0123456789''"
      by (rule nth_mem) simp
    with True show ?thesis
      by (subst str_nat.simps) (simp add: digit_char_def)
  next
    case False
    with 1 show ?thesis
      by (subst str_nat.simps) (simp add: str_nat_nonempty)
  qed
qed

lemma strftime_relative: "strftime now @ ''.log'' \<noteq> [] \<and> hd (strftime now @ ''.log'') \<noteq> sep"
proof -
  have "hd (strftime now @ ''.log'') = hd (str_nat (tm_year now))"
    by (simp add: strftime_def str_nat_nonempty)
  moreover have "sep \<notin> set ''0123456789''" by (simp add: sep_def)
  ultimately show ?thesis using hd_str_nat [of "tm_year now"] by (auto simp: strftime_def)
qed

lemma experiment_dir_same:
  "experiment_id = [] \<or> hd experiment_id \<noteq> sep \<Longrightarrow>
   same_path (experiment_dir experiment_id) (''out/'' @ experiment_id)"
  using same_path_join_step [of experiment_id "''out''"]
  by (simp add: experiment_dir_def os_path_join_def sep_def)

lemma experiment_dir_nonempty: "experiment_dir experiment_id \<noteq> []"
  by (auto simp: experiment_dir_def os_path_join_def join_step_def)

lemma below_experiment_dir_same:
  assumes "experiment_id = [] \<or> hd experiment_id \<noteq> sep" and "b = [] \<or> hd b \<noteq> sep"
  shows "same_path (join_step (experiment_dir experiment_id) b) (''out/'' @ experiment_id @ sep # b)"
proof -
  have "same_path (join_step (experiment_dir experiment_id) b) (experiment_dir experiment_id @ sep # b)"
    using assms(2) experiment_dir_nonempty by (rule same_path_join_step)
  moreover have "same_path (experiment_dir experiment_id @ sep # b) ((''out/'' @ experiment_id) @ sep # b)"
    using assms(1) by (intro same_path_extend experiment_dir_same)
  ultimately show ?thesis using same_path_trans by fastforce
qed

lemma paths_below_experiment_dir:
  "plotting_fn experiment_id metric = join_step (experiment_dir experiment_id) (metric @ ''.csv'')"
  "checkpoint_path experiment_id = join_step (experiment_dir experiment_id) ''checkpoint.pth.tar''"
  "best_model_path experiment_id = join_step (experiment_dir experiment_id) ''best_model.pth.tar''"
  "saved_path experiment_id filename = join_step (experiment_dir experiment_id) filename"
  "log_dir experiment_id = join_step (experiment_dir experiment_id) ''logs''"
  "log_fn experiment_id now = join_step (log_dir experiment_id) (strftime now @ ''.log'')"
  by (simp_all add: plotting_fn_def checkpoint_path_def best_model_path_def saved_path_def
      log_dir_def log_fn_def experiment_dir_def os_path_join_def)

lemma log_dir_nonempty: "log_dir experiment_id \<noteq> []"
  by (auto simp: paths_below_experiment_dir join_step_def experiment_dir_nonempty)

lemma log_fn_same:
  assumes "experiment_id = [] \<or> hd experiment_id \<noteq> sep"
  shows "same_path (log_fn experiment_id now)
           (''out/'' @ experiment_id @ ''/logs/'' @ strftime now @ ''.log'')"
proof -
  let ?b = "strftime now @ ''.log''"
  have "same_path (log_fn experiment_id now) (log_dir experiment_id @ sep # ?b)"
    unfolding paths_below_experiment_dir(6)
    using strftime_relative log_dir_nonempty by (intro same_path_join_step) auto
  moreover have "same_path (log_dir experiment_id @ sep # ?b)
                   ((''out/'' @ experiment_id @ sep # ''logs'') @ sep # ?b)"
    unfolding paths_below_experiment_dir(5)
    using assms by (intro same_path_extend below_experiment_dir_same) (simp_all add: sep_def)
  ultimately have "same_path (log_fn experiment_id now)
                     ((''out/'' @ experiment_id @ sep # ''logs'') @ sep # ?b)"
    by (rule same_path_trans)
  then show ?thesis by (simp add: sep_def)
qed

text \<open>
  Claim C5, amended. \<^verbatim>\<open>os.path.join\<close> drops what precedes a component that begins with
  \<^verbatim>\<open>/\<close>. When the experiment id does not begin with \<^verbatim>\<open>/\<close>, the log file, the checkpoint
  and the best model are at the paths of the layout, and so are the metrics file and a
  file saved under a custom name when the metric and that name do not begin with \<^verbatim>\<open>/\<close>:
  the path the function builds names the same node as the path of the layout, in every
  file system, and is that path letter for letter when the experiment id is not empty
  and does not end with \<^verbatim>\<open>/\<close>.
\<close>

theorem path_layout:
  assumes "experiment_id = [] \<or> hd experiment_id \<noteq> sep"
  shows "resolve s (log_fn experiment_id now)
           = resolve s (''out/'' @ experiment_id @ ''/logs/'' @ strftime now @ ''.log'') \<and>
         resolve s (checkpoint_path experiment_id)
           = resolve s (''out/'' @ experiment_id @ ''/checkpoint.pth.tar'') \<and>
         resolve s (best_model_path experiment_id)
           = resolve s (''out/'' @ experiment_id @ ''/best_model.pth.tar'') \<and>
         (metric = [] \<or> hd metric \<noteq> sep \<longrightarrow>
            resolve s (plotting_fn experiment_id metric)
              = resolve s (''out/'' @ experiment_id @ ''/'' @ metric @ ''.csv'')) \<and>
         (filename = [] \<or> hd filename \<noteq> sep \<longrightarrow>
            resolve s (saved_path experiment_id filename)
              = resolve s (''out/'' @ experiment_id @ ''/'' @ filename)) \<and>
         (experiment_id \<noteq> [] \<and> last experiment_id \<noteq> sep \<longrightarrow>
            log_fn experiment_id now
              = ''out/'' @ experiment_id @ ''/logs/'' @ strftime now @ ''.log'' \<and>
            checkpoint_path experiment_id = ''out/'' @ experiment_id @ ''/checkpoint.pth.tar'' \<and>
            best_model_path experiment_id = ''out/'' @ experiment_id @ ''/best_model.pth.tar'' \<and>
            (metric = [] \<or> hd metric \<noteq> sep \<longrightarrow>
               plotting_fn experiment_id metric = ''out/'' @ experiment_id @ ''/'' @ metric @ ''.csv'') \<and>
            (filename = [] \<or> hd filename \<noteq> sep \<longrightarrow>
               saved_path experiment_id filename = ''out/'' @ experiment_id @ ''/'' @ filename))"
proof -
  have rel: "same_path (join_step (experiment_dir experiment_id) b) (''out/'' @ experiment_id @ ''/'' @ b)"
    if "b = [] \<or> hd b \<noteq> sep" for b
    using below_experiment_dir_same [OF assms that] by (simp add: sep_def)
  have lit: "join_step (experiment_dir experiment_id) b = ''out/'' @ experiment_id @ ''/'' @ b"
    if "b = [] \<or> hd b \<noteq> sep" "experiment_id \<noteq> []" "last experiment_id \<noteq> sep" for b
    using that assms by (auto simp: experiment_dir_def os_path_join_def join_step_def sep_def)
  have litlog: "log_fn experiment_id now = ''out/'' @ experiment_id @ ''/logs/'' @ strftime now @ ''.log''"
    if "experiment_id \<noteq> []" "last experiment_id \<noteq> sep"
  proof -
    have "log_dir experiment_id = ''out/'' @ experiment_id @ ''/logs''"
      unfolding paths_below_experiment_dir(5) using that by (subst lit) (simp_all add: sep_def)
    then show ?thesis
      unfolding paths_below_experiment_dir(6)
      using strftime_relative [of now] by (subst join_step_literal) (simp_all add: sep_def)
  qed
  have m: "metric = [] \<or> hd metric \<noteq> sep \<Longrightarrow> (metric @ ''.csv'') = [] \<or> hd (metric @ ''.csv'') \<noteq> sep"
    by (cases metric) (simp_all add: sep_def)
  show ?thesis
    using same_path_resolve [OF log_fn_same [OF assms], of s now]
      same_path_resolve [OF rel, of "''checkpoint.pth.tar''" s]
      same_path_resolve [OF rel, of "''best_model.pth.tar''" s]
      same_path_resolve [OF rel, of "metric @ ''.csv''" s]
      same_path_resolve [OF rel, of filename s]
      lit [of "''checkpoint.pth.tar''"] lit [of "''best_model.pth.tar''"]
      lit [of "metric @ ''.csv''"] lit [of filename] litlog m
    by (simp add: paths_below_experiment_dir sep_def)
qed

theorem path_layout_counterexample:
  "plotting_fn ''/tmp'' ''acc'' = ''/tmp/acc.csv'' \<and>
   resolve example_state (plotting_fn ''/tmp'' ''acc'') = Inr [''tmp'', ''acc.csv''] \<and>
   resolve example_state (''out/'' @ ''/tmp'' @ ''/'' @ ''acc'' @ ''.csv'') = Inl OSError"
  by (simp add: path_defs resolve_def example_defs node_at_def step_key_def)

theorem path_layout_witness:
  "plotting_fn ''exp'' ''acc'' = ''out/exp/acc.csv'' \<and>
   saved_path ''exp'' ''last.pth.tar'' = ''out/exp/last.pth.tar'' \<and>
   checkpoint_path ''exp'' = ''out/exp/checkpoint.pth.tar'' \<and>
   best_model_path ''exp'' = ''out/exp/best_model.pth.tar'' \<and>
   log_fn ''exp'' \<lparr>tm_year = 2022, tm_mon = 5, tm_mday = 1, tm_hour = 9, tm_min = 30\<rparr>
     = ''out/exp/logs/2022-05-01-09-30.log'' \<and>
   resolve example_state (plotting_fn ''exp'' ''acc'') = resolve example_state ''out/exp/acc.csv''"
  using path_layout [of "''exp''" example_state
      "\<lparr>tm_year = 2022, tm_mon = 5, tm_mday = 1, tm_hour = 9, tm_min = 30\<rparr>" "''acc''"
      "''last.pth.tar''"]
  by (simp add: sep_def strftime_def pad2_def str_nat.simps digit_char_def)

subsection \<open>Who creates directories\<close>










lemma os_makedirs_cwd: "cwd (snd (os_makedirs name s)) = cwd s"
  by (simp add: os_makedirs_def Let_def split: prod.splits)


lemma isdir_process [simp]: "os_path_isdir (s\<lparr>process := g\<rparr>) q = os_path_isdir s q"
  by (simp add: os_path_isdir_def resolve_def cong: sum.case_cong)


lemma snd_exc_bind:
  "snd (exc_bind f g s) = (case f s of (Inl e, s') \<Rightarrow> s' | (Inr x, s') \<Rightarrow> snd (g x s'))"
  by (simp add: exc_bind_def split: prod.splits sum.splits)

lemma fst_exc_bind:
  "fst (exc_bind f g s) = (case f s of (Inl e, s') \<Rightarrow> Inl e | (Inr x, s') \<Rightarrow> fst (g x s'))"
  by (simp add: exc_bind_def split: prod.splits sum.splits)





subsection \<open>File handles\<close>

lemma handles_bind:
  assumes "\<And>s. open_handles (snd (f s)) = open_handles s"
    and "\<And>x s. open_handles (snd (g x s)) = open_handles s"
  shows "open_handles (snd (exc_bind f g s)) = open_handles s"
proof (cases "f s")
  case (Pair r s1)
  with assms(1) [of s] have "open_handles s1 = open_handles s" by simp
  with Pair assms(2) show ?thesis
    by (cases r) (simp_all add: exc_bind_def)
qed

lemma torch_save_handles: "open_handles (snd (torch_save obj f s)) = open_handles s"
  by (simp add: torch_save_eq split: sum.splits option.splits node.splits)

lemma load_handles:
  "open_handles (snd (model_load_state_dict model sd s)) = open_handles s"
  "open_handles (snd (optim_load_state_dict optimizer sd s)) = open_handles s"
  by (simp_all add: model_load_state_dict_def optim_load_state_dict_def split: prod.splits)

lemma load_checkpoint_handles:
  "open_handles (snd (load_checkpoint experiment_id model optimizer s)) = open_handles s"
  unfolding load_checkpoint_def Let_def
  by (intro handles_bind) (simp_all add: torch_load_state exc_of_def exc_return_def load_handles)

lemma load_best_model_handles:
  "open_handles (snd (load_best_model experiment_id model s)) = open_handles s"
  unfolding load_best_model_def Let_def
  by (intro handles_bind) (simp_all add: torch_load_state exc_return_def load_handles)

lemma save_plotting_data_handles:
  "open_handles (snd (save_plotting_data experiment_id metric epoch metric_val s)) = open_handles s"
  by (simp add: save_plotting_data_eq split: sum.splits option.splits node.splits)

lemma fix_all_seeds_handles: "open_handles (snd (fix_all_seeds seed s)) = open_handles s"
  unfolding fix_all_seeds_def
  by (intro handles_bind)
     (simp_all add: random_seed_set_def np_random_seed_set_def environ_set_def
        torch_manual_seed_def torch_cuda_manual_seed_all_def)

lemma os_makedirs_frame:
  "open_handles (snd (os_makedirs name s)) = open_handles s"
  "process (snd (os_makedirs name s)) = process s"
  by (simp_all add: os_makedirs_def Let_def split: prod.splits)

lemma resolve_process [simp]: "resolve (s\<lparr>process := g\<rparr>) p = resolve s p"
  by (simp add: resolve_def)

text \<open>The directories are made first; what the rest of \<^verbatim>\<open>create_logger\<close> does to the handles.\<close>

lemma configure_handles_kept:
  assumes "root_handlers (process s1) \<noteq> []"
  shows "open_handles (snd (
      exc_bind (logging_basicConfig f) (\<lambda>_.
      exc_bind (logger_setLevel logging_INFO) (\<lambda>_.
      exc_bind (\<lambda>s. if length (root_handlers (process s)) = 1
                    then logger_addHandler StreamHandler s else (Inr (), s)) (\<lambda>_.
      exc_return RootLogger))) s1)) = open_handles s1"
  using assms
  by (simp add: exc_bind_def logging_basicConfig_def logger_setLevel_def logger_addHandler_def
      exc_return_def)

lemma configure_handles_opened:
  assumes "root_handlers (process s1) = []"
    and "fst (exc_bind (logging_basicConfig f) (\<lambda>_.
      exc_bind (logger_setLevel logging_INFO) (\<lambda>_.
      exc_bind (\<lambda>s. if length (root_handlers (process s)) = 1
                    then logger_addHandler StreamHandler s else (Inr (), s)) (\<lambda>_.
      exc_return RootLogger))) s1) = Inr l"
  shows "\<exists>k. resolve (snd (exc_bind (logging_basicConfig f) (\<lambda>_.
      exc_bind (logger_setLevel logging_INFO) (\<lambda>_.
      exc_bind (\<lambda>s. if length (root_handlers (process s)) = 1
                    then logger_addHandler StreamHandler s else (Inr (), s)) (\<lambda>_.
      exc_return RootLogger))) s1)) f = Inr k \<and>
    open_handles (snd (exc_bind (logging_basicConfig f) (\<lambda>_.
      exc_bind (logger_setLevel logging_INFO) (\<lambda>_.
      exc_bind (\<lambda>s. if length (root_handlers (process s)) = 1
                    then logger_addHandler StreamHandler s else (Inr (), s)) (\<lambda>_.
      exc_return RootLogger))) s1)) = open_handles s1 + {#k#} \<and>
    root_handlers (process (snd (exc_bind (logging_basicConfig f) (\<lambda>_.
      exc_bind (logger_setLevel logging_INFO) (\<lambda>_.
      exc_bind (\<lambda>s. if length (root_handlers (process s)) = 1
                    then logger_addHandler StreamHandler s else (Inr (), s)) (\<lambda>_.
      exc_return RootLogger))) s1))) = [FileHandler k, StreamHandler]"
proof -
  obtain r s2 where o: "py_open f Append_mode s1 = (r, s2)"
    by (cases "py_open f Append_mode s1")
  from assms o obtain k where r: "r = Inr k"
    by (cases r) (simp_all add: exc_bind_def logging_basicConfig_def)
  from o r have k: "resolve s1 f = Inr k" and nd: "node_at (nodes s1) k \<noteq> Some Dir"
    and s2: "s2 = s1\<lparr>open_handles := open_handles s1 + {#k#}\<rparr> \<or>
             s2 = s1\<lparr>nodes := (nodes s1)(k \<mapsto> File []), open_handles := open_handles s1 + {#k#}\<rparr>"
    by (auto simp: py_open_def split: sum.splits option.splits node.splits if_splits)
  from s2 k nd have "resolve s2 f = Inr k"
    using resolve_upd_file [of s1 k "[]" f] by (auto simp: resolve_def)
  moreover from s2 have "open_handles s2 = open_handles s1 + {#k#}" by auto
  ultimately show ?thesis
    using assms(1) o r
    by (simp add: exc_bind_def logging_basicConfig_def logger_setLevel_def logger_addHandler_def
        exc_return_def)
qed

text \<open>
  Claim C7, amended. Every function but \<^verbatim>\<open>create_logger\<close> leaves the open files as
  they were, whether it returns or raises: each file it opens it closes.
  \<^verbatim>\<open>create_logger\<close> does so when the root logger already has a handler. When the root
  logger has none and \<^verbatim>\<open>create_logger\<close> returns, the log file stays open after the call:
  the file handler that \<^verbatim>\<open>logging.basicConfig\<close> has added to the root logger holds it.
\<close>

theorem file_handles_closed:
  "open_handles (snd (save_plotting_data experiment_id metric epoch metric_val s)) = open_handles s \<and>
   open_handles (snd (save_checkpoint experiment_id next_epoch best_acc model optimizer filename s))
     = open_handles s \<and>
   open_handles (snd (load_checkpoint experiment_id model optimizer s)) = open_handles s \<and>
   open_handles (snd (load_best_model experiment_id model s)) = open_handles s \<and>
   open_handles (snd (save_model model experiment_id filename s)) = open_handles s \<and>
   open_handles (snd (fix_all_seeds seed s)) = open_handles s \<and>
   (root_handlers (process s) \<noteq> [] \<longrightarrow>
      open_handles (snd (create_logger experiment_id now s)) = open_handles s) \<and>
   (root_handlers (process s) = [] \<and> fst (create_logger experiment_id now s) = Inr l \<longrightarrow>
      (\<exists>k. resolve (snd (create_logger experiment_id now s)) (log_fn experiment_id now) = Inr k \<and>
           open_handles (snd (create_logger experiment_id now s)) = open_handles s + {#k#} \<and>
           root_handlers (process (snd (create_logger experiment_id now s)))
             = [FileHandler k, StreamHandler]))"
proof -
  let ?pre = "\<lambda>s. if \<not> os_path_exists s (log_dir experiment_id)
                   then os_makedirs (log_dir experiment_id) s else (Inr (), s)"
  let ?tail = "exc_bind (logging_basicConfig (log_fn experiment_id now)) (\<lambda>_.
      exc_bind (logger_setLevel logging_INFO) (\<lambda>_.
      exc_bind (\<lambda>s. if length (root_handlers (process s)) = 1
                    then logger_addHandler StreamHandler s else (Inr (), s)) (\<lambda>_.
      exc_return RootLogger)))"
  obtain r1 s1 where pre: "?pre s = (r1, s1)" by (cases "?pre s")
  have s1: "open_handles s1 = open_handles s \<and> process s1 = process s"
    using pre os_makedirs_frame [of "log_dir experiment_id" s]
    by (auto split: if_splits)
  have sn: "snd (create_logger experiment_id now s)
            = (case r1 of Inl e \<Rightarrow> s1 | Inr x \<Rightarrow> snd (?tail s1))"
    unfolding create_logger_def by (subst snd_exc_bind) (simp add: pre)
  have fs: "fst (create_logger experiment_id now s)
            = (case r1 of Inl e \<Rightarrow> Inl e | Inr x \<Rightarrow> fst (?tail s1))"
    unfolding create_logger_def by (subst fst_exc_bind) (simp add: pre)
  have kept: "open_handles (snd (create_logger experiment_id now s)) = open_handles s"
    if "root_handlers (process s) \<noteq> []"
    using that s1 configure_handles_kept [of s1 "log_fn experiment_id now"]
    by (cases r1) (simp_all add: sn)
  have opened: "\<exists>k. resolve (snd (create_logger experiment_id now s)) (log_fn experiment_id now) = Inr k \<and>
           open_handles (snd (create_logger experiment_id now s)) = open_handles s + {#k#} \<and>
           root_handlers (process (snd (create_logger experiment_id now s)))
             = [FileHandler k, StreamHandler]"
    if "root_handlers (process s) = []" "fst (create_logger experiment_id now s) = Inr l"
    using that s1 configure_handles_opened [of s1 "log_fn experiment_id now" l]
    by (cases r1) (simp_all add: sn fs)
  show ?thesis
    using kept opened
    by (simp add: save_plotting_data_handles save_checkpoint_def save_model_def torch_save_handles
        load_checkpoint_handles load_best_model_handles fix_all_seeds_handles)
qed

theorem file_handles_closed_counterexample:
  "open_handles example_state = {#} \<and>
   fst (create_logger ''exp'' example_time example_state) = Inr RootLogger \<and>
   open_handles (snd (create_logger ''exp'' example_time example_state))
     = {#[''home'', ''out'', ''exp'', ''logs'', ''2022-05-01-09-30.log'']#}"
  by (simp add: create_logger_def path_defs example_defs exc_bind_def exc_return_def
      os_path_exists_def os_makedirs_def Let_def resolve_def node_at_def step_key_def py_open_def
      logging_basicConfig_def logger_setLevel_def logger_addHandler_def strftime_def pad2_def
      str_nat.simps digit_char_def)

theorem file_handles_closed_witness:
  "open_handles (snd (save_plotting_data ''exp'' ''acc'' 1 5 example_state)) = {#} \<and>
   open_handles (snd (load_checkpoint ''exp'' 0 0 example_state)) = {#} \<and>
   root_handlers (process example_state) = [] \<and>
   fst (create_logger ''exp'' example_time example_state) = Inr RootLogger \<and>
   (\<exists>k. resolve (snd (create_logger ''exp'' example_time example_state))
           (log_fn ''exp'' example_time) = Inr k \<and>
        open_handles (snd (create_logger ''exp'' example_time example_state)) = {#k#} \<and>
        root_handlers (process (snd (create_logger ''exp'' example_time example_state)))
          = [FileHandler k, StreamHandler])"
proof -
  have a: "root_handlers (process example_state) = []" "open_handles example_state = {#}"
    by (simp_all add: example_defs)
  have b: "fst (create_logger ''exp'' example_time example_state) = Inr RootLogger"
    by (simp add: create_logger_def path_defs example_defs exc_bind_def exc_return_def
      os_path_exists_def os_makedirs_def Let_def resolve_def node_at_def step_key_def py_open_def
      logging_basicConfig_def logger_setLevel_def logger_addHandler_def strftime_def pad2_def
      str_nat.simps digit_char_def)
  show ?thesis
    using a b
      file_handles_closed [of "''exp''" "''acc''" 1 5 example_state 3 7 0 0 "''f''" 1 example_time
        RootLogger]
    by simp
qed

subsection \<open>Process-global state\<close>

lemma ignores_bind:
  assumes "ignores_process f" and "\<And>x. ignores_process (g x)"
  shows "ignores_process (exc_bind f g)"
  unfolding ignores_process_def
proof (intro allI)
  fix s gl
  obtain r s1 where f: "f s = (r, s1)" by (cases "f s")
  with assms(1) have f': "f (s\<lparr>process := gl\<rparr>) = (r, s1\<lparr>process := gl\<rparr>)"
    by (simp add: ignores_process_def)
  show "exc_bind f g (s\<lparr>process := gl\<rparr>)
        = (fst (exc_bind f g s), (snd (exc_bind f g s))\<lparr>process := gl\<rparr>)"
  proof (cases r)
    case (Inl e)
    with f f' show ?thesis by (simp add: exc_bind_def)
  next
    case (Inr x)
    with f f' assms(2) [of x] show ?thesis by (simp add: exc_bind_def ignores_process_def)
  qed
qed

lemma ignores_pure:
  "ignores_process (exc_return x)"
  "ignores_process (exc_of r)"
  by (simp_all add: ignores_process_def exc_return_def exc_of_def)

lemma ignores_torch_save: "ignores_process (torch_save obj f)"
  by (simp add: ignores_process_def torch_save_eq split: sum.splits option.splits node.splits)

lemma ignores_torch_load: "ignores_process (torch_load f ml)"
  by (simp add: ignores_process_def torch_load_eq split: sum.splits option.splits node.splits)

lemma ignores_load_state_dict:
  "ignores_process (model_load_state_dict model sd)"
  "ignores_process (optim_load_state_dict optimizer sd)"
  by (simp_all add: ignores_process_def model_load_state_dict_def optim_load_state_dict_def
      split: prod.splits)

lemma ignores_save_plotting_data:
  "ignores_process (save_plotting_data experiment_id metric epoch metric_val)"
  by (simp add: ignores_process_def save_plotting_data_eq
      split: sum.splits option.splits node.splits)

lemma ignores_load_checkpoint: "ignores_process (load_checkpoint experiment_id model optimizer)"
  unfolding load_checkpoint_def Let_def
  by (intro ignores_bind ignores_pure ignores_torch_load ignores_load_state_dict)

lemma ignores_save_checkpoint:
  "ignores_process (save_checkpoint experiment_id next_epoch best_acc model optimizer filename)"
proof -
  have "save_checkpoint experiment_id next_epoch best_acc model optimizer filename (s\<lparr>process := g\<rparr>)
        = torch_save (checkpoint_dict next_epoch best_acc (modules s model) (optimizers s optimizer))
            (saved_path experiment_id filename) (s\<lparr>process := g\<rparr>)" for s g
    by (simp add: save_checkpoint_def)
  then show ?thesis
    using ignores_torch_save
    by (simp add: ignores_process_def save_checkpoint_def Let_def)
qed

lemma ignores_save_model: "ignores_process (save_model model experiment_id filename)"
proof -
  have "save_model model experiment_id filename (s\<lparr>process := g\<rparr>)
        = torch_save (module_state_dict (modules s model)) (saved_path experiment_id filename)
            (s\<lparr>process := g\<rparr>)" for s g
    by (simp add: save_model_def)
  then show ?thesis
    using ignores_torch_save
    by (simp add: ignores_process_def save_model_def)
qed

lemma ignores_load_best_model: "ignores_process (load_best_model experiment_id model)"
proof -
  have "ignores_process (exc_bind (torch_load (best_model_path experiment_id) ml)
          (\<lambda>model_state_dict. exc_bind (model_load_state_dict model model_state_dict)
             (\<lambda>_. exc_return model)))" for ml
    by (intro ignores_bind ignores_pure ignores_torch_load ignores_load_state_dict)
  then show ?thesis
    by (simp add: ignores_process_def load_best_model_def Let_def)
qed

lemma fix_all_seeds_sets:
  assumes "0 \<le> seed" and "seed < 2 ^ 32"
  shows "fst (fix_all_seeds seed s) = Inr () \<and>
         random_seed (process (snd (fix_all_seeds seed s))) = Some seed \<and>
         np_random_seed (process (snd (fix_all_seeds seed s))) = Some seed \<and>
         torch_seed (process (snd (fix_all_seeds seed s))) = Some seed \<and>
         environ (process (snd (fix_all_seeds seed s))) ''PYTHONHASHSEED'' = Some (str_int seed)"
proof -
  from assms(2) have "seed < 2 ^ 64" by simp
  with assms show ?thesis
    by (simp add: fix_all_seeds_def exc_bind_def random_seed_set_def np_random_seed_set_def
        environ_set_def torch_manual_seed_def torch_cuda_manual_seed_all_def)
qed

text \<open>
  Claim C8, amended. \<^verbatim>\<open>save_plotting_data\<close>, \<^verbatim>\<open>save_checkpoint\<close>, \<^verbatim>\<open>load_checkpoint\<close>,
  \<^verbatim>\<open>load_best_model\<close> and \<^verbatim>\<open>save_model\<close> neither read nor change the state of the
  process outside the file system and the objects they are given: with the same
  arguments, the same file system and the same model and optimizer, the outcome is the
  same whatever the root logger, the seeds and the environment are, and these are left
  as they were. \<^verbatim>\<open>fix_all_seeds\<close> does change that state: with a seed that NumPy accepts
  it sets the seeds of Python, NumPy and PyTorch and the variable \<^verbatim>\<open>PYTHONHASHSEED\<close>.
  (\<^verbatim>\<open>create_logger\<close> reads and changes the handlers of the root logger.)
\<close>

theorem persistence_ignores_process:
  "ignores_process (save_plotting_data experiment_id metric epoch metric_val) \<and>
   ignores_process (save_checkpoint experiment_id next_epoch best_acc model optimizer filename) \<and>
   ignores_process (load_checkpoint experiment_id model optimizer) \<and>
   ignores_process (load_best_model experiment_id model) \<and>
   ignores_process (save_model model experiment_id filename) \<and>
   (0 \<le> seed \<and> seed < 2 ^ 32 \<longrightarrow>
      fst (fix_all_seeds seed s) = Inr () \<and>
      random_seed (process (snd (fix_all_seeds seed s))) = Some seed \<and>
      np_random_seed (process (snd (fix_all_seeds seed s))) = Some seed \<and>
      torch_seed (process (snd (fix_all_seeds seed s))) = Some seed \<and>
      environ (process (snd (fix_all_seeds seed s))) ''PYTHONHASHSEED'' = Some (str_int seed))"
  using fix_all_seeds_sets [of seed s]
  by (simp add: ignores_save_plotting_data ignores_save_checkpoint ignores_load_checkpoint
      ignores_load_best_model ignores_save_model)

lemmas logger_defs =
  create_logger_def exc_bind_def exc_return_def os_path_exists_def os_makedirs_def Let_def
  resolve_def node_at_def step_key_def py_open_def logging_basicConfig_def logger_setLevel_def
  logger_addHandler_def strftime_def pad2_def str_nat.simps digit_char_def logging_INFO_def

lemma logged_state_eq:
  "logged_state = example_state
     \<lparr>nodes := (nodes example_state)
        ([''home'', ''out'', ''other''] \<mapsto> Dir,
         [''home'', ''out'', ''other'', ''logs''] \<mapsto> Dir,
         [''home'', ''out'', ''other'', ''logs'', ''2022-05-01-09-30.log''] \<mapsto> File []),
      open_handles := {#[''home'', ''out'', ''other'', ''logs'', ''2022-05-01-09-30.log'']#},
      process := fresh_process
        \<lparr>root_handlers :=
           [FileHandler [''home'', ''out'', ''other'', ''logs'', ''2022-05-01-09-30.log''],
            StreamHandler],
         root_level := 20\<rparr>\<rparr>"
  by (simp add: logged_state_def logger_defs path_defs example_defs)

theorem persistence_ignores_process_counterexample:
  "nodes (logged_state\<lparr>process := fresh_process\<rparr>) = nodes logged_state \<and>
   cwd (logged_state\<lparr>process := fresh_process\<rparr>) = cwd logged_state \<and>
   file_content (snd (create_logger ''exp'' example_time (logged_state\<lparr>process := fresh_process\<rparr>)))
       (log_fn ''exp'' example_time) = Some [] \<and>
   file_content (snd (create_logger ''exp'' example_time logged_state))
       (log_fn ''exp'' example_time) = None \<and>
   process (snd (create_logger ''exp'' example_time (logged_state\<lparr>process := fresh_process\<rparr>)))
     \<noteq> fresh_process"
  by (simp add: logged_state_eq file_content_def logger_defs path_defs example_defs)

theorem persistence_ignores_process_witness:
  "save_plotting_data ''exp'' ''acc'' 1 5 (example_state\<lparr>process := process logged_state\<rparr>)
     = (Inr (), (snd (save_plotting_data ''exp'' ''acc'' 1 5 example_state))
                  \<lparr>process := process logged_state\<rparr>) \<and>
   load_checkpoint ''exp'' 0 0 (example_state\<lparr>process := process logged_state\<rparr>)
     = (Inl OSError, example_state\<lparr>process := process logged_state\<rparr>) \<and>
   fst (fix_all_seeds 42 example_state) = Inr () \<and>
   np_random_seed (process (snd (fix_all_seeds 42 example_state))) = Some 42 \<and>
   environ (process (snd (fix_all_seeds 42 example_state))) ''PYTHONHASHSEED'' = Some ''42''"
proof -
  have a: "fst (save_plotting_data ''exp'' ''acc'' 1 5 example_state) = Inr ()"
    by (simp add: save_plotting_data_eq example_resolve example_nodes)
  have b: "load_checkpoint ''exp'' 0 0 example_state = (Inl OSError, example_state)"
    by (simp add: load_checkpoint_Inl torch_load_missing os_path_isfile_def example_resolve
        example_nodes)
  have c: "str_int 42 = ''42''"
    by (simp add: str_int_def str_nat.simps digit_char_def)
  show ?thesis
    using a b c
      persistence_ignores_process [of "''exp''" "''acc''" 1 5 3 7 0 0 "''f''" 42 example_state]
    by (simp add: ignores_process_def)
qed

end
